theory Spec2Isabelle
  imports Complex_Main
begin

section \<open>The pacing transform (src/lib/ai/transform.ts)\<close>

text \<open>
  \<open>typedTextTransform\<close> builds a \<open>TransformStream\<close> whose \<open>transform\<close> callback reads the
  clock, waits on a timer when a text chunk comes too soon after the previous one, enqueues
  the chunk and reads the clock again; its \<open>flush\<close> callback terminates the controller.

  A chunk is a \<open>TextStreamPart\<close>: the callback only inspects its \<open>type\<close> field, so the rest
  of the part is kept as an opaque payload.
\<close>

record 'a TextStreamPart =
  type :: string
  payload :: 'a

text \<open>
  The readable side of the stream as the callback sees it through its controller: the
  chunks enqueued so far (each with the clock time at which \<open>controller.enqueue\<close> ran),
  whether the readable side still accepts chunks, and how many times the end of the stream
  has been signalled to the consumer.
\<close>

datatype readable_state = Readable | Closed

record 'a controller =
  queue :: "(int \<times> 'a TextStreamPart) list"
  state :: readable_state
  closes :: nat

datatype error = TypeError | SyntaxError | StorageError

text \<open>
  The platform's controller operations (Streams standard). \<open>enqueue\<close> throws a
  \<open>TypeError\<close> when the readable side can no longer take chunks; closing a side that
  is already closed does nothing; \<open>terminate\<close> closes the readable side; a consumer that
  cancels closes it without any end-of-stream signal.
\<close>

definition enqueue :: "int \<Rightarrow> 'a TextStreamPart \<Rightarrow> 'a controller \<Rightarrow> error + 'a controller" where
  "enqueue t chunk ctl =
     (if state ctl = Readable then Inr (ctl\<lparr>queue := queue ctl @ [(t, chunk)]\<rparr>)
      else Inl TypeError)"

definition close :: "'a controller \<Rightarrow> 'a controller" where
  "close ctl =
     (if state ctl = Readable then ctl\<lparr>state := Closed, closes := closes ctl + 1\<rparr>
      else ctl)"

definition terminate :: "'a controller \<Rightarrow> 'a controller" where
  "terminate ctl = close ctl"

definition cancelled :: "'a controller \<Rightarrow> 'a controller" where
  "cancelled ctl = ctl\<lparr>state := Closed\<rparr>"

text \<open>
  What one call of \<open>transform\<close> observes of its environment: \<open>now\<close> is the value of
  \<open>Date.now()\<close> on line 11; \<open>late\<close> is how long after the requested delay the timer's
  promise resolved; \<open>lag\<close> is the time between \<open>controller.enqueue\<close> and the second
  \<open>Date.now()\<close> on line 21; \<open>cancel\<close> is the time at which the consumer cancels the
  readable side while the call is in progress, if it does.
\<close>

record clock =
  now :: int
  late :: int
  lag :: int
  cancel :: "int option"

record 'a session =
  lastChunkTime :: int
  controller :: "'a controller"

definition MIN_DELAY_MS :: int where
  "MIN_DELAY_MS = 20"

definition timeSinceLastChunk :: "int \<Rightarrow> int \<Rightarrow> int" where
  "timeSinceLastChunk t lastTime = t - lastTime"

text \<open>Lines 15 and 16: the delay handed to \<open>setTimeout\<close>, or \<open>None\<close> when the callback does not wait.\<close>

definition delay :: "int \<Rightarrow> 'a TextStreamPart \<Rightarrow> int \<Rightarrow> int option" where
  "delay lastTime chunk t =
     (if type chunk = ''text'' \<and> timeSinceLastChunk t lastTime < MIN_DELAY_MS
      then Some (MIN_DELAY_MS - timeSinceLastChunk t lastTime)
      else None)"

text \<open>The clock time at which line 20 (\<open>controller.enqueue(chunk)\<close>) runs.\<close>

definition enqueue_time :: "clock \<Rightarrow> 'a TextStreamPart \<Rightarrow> int \<Rightarrow> int" where
  "enqueue_time k chunk lastTime =
     (case delay lastTime chunk (now k) of
        None \<Rightarrow> now k
      | Some d \<Rightarrow> now k + d + late k)"

text \<open>
  The \<open>transform\<close> callback. The timer is a bare \<open>setTimeout\<close>: nothing cancels it, and
  nothing is checked between the wait and the enqueue. A throw of \<open>enqueue\<close> leaves the
  callback (line 21 is not reached); the session as it stands then is returned beside the error.
\<close>

definition transform ::
  "clock \<Rightarrow> 'a TextStreamPart \<Rightarrow> 'a session \<Rightarrow> (error \<times> 'a session) + 'a session" where
  "transform k chunk s =
     (let t = enqueue_time k chunk (lastChunkTime s);
          ctl = (case cancel k of
                   None \<Rightarrow> controller s
                 | Some tc \<Rightarrow> if tc \<le> t then cancelled (controller s) else controller s)
      in case enqueue t chunk ctl of
           Inl e \<Rightarrow> Inl (e, s\<lparr>controller := ctl\<rparr>)
         | Inr ctl' \<Rightarrow> Inr (s\<lparr>controller := ctl', lastChunkTime := t + lag k\<rparr>))"

definition flush :: "'a session \<Rightarrow> 'a session" where
  "flush s = s\<lparr>controller := terminate (controller s)\<rparr>"

text \<open>
  The stream machinery around the callbacks: chunks are handed to \<open>transform\<close> one at a
  time, the next only after the previous call has settled, and a throw ends the run. At the
  end of the input the machinery calls \<open>flush\<close> and then closes the readable side itself.
\<close>

definition start :: "'a session" where
  "start = \<lparr>lastChunkTime = 0, controller = \<lparr>queue = [], state = Readable, closes = 0\<rparr>\<rparr>"

fun run :: "(clock \<times> 'a TextStreamPart) list \<Rightarrow> 'a session \<Rightarrow> (error \<times> 'a session) + 'a session" where
  "run [] s = Inr s"
| "run ((k, chunk) # rest) s =
     (case transform k chunk s of
        Inl e \<Rightarrow> Inl e
      | Inr s' \<Rightarrow> run rest s')"

definition end_of_stream :: "'a session \<Rightarrow> 'a session" where
  "end_of_stream s = (let s' = flush s in s'\<lparr>controller := close (controller s')\<rparr>)"

text \<open>
  The clock times at which a run that nobody cancels enqueues its chunks, from the value
  of \<open>lastChunkTime\<close> it starts with (an auxiliary function of the proofs, not of the source).
\<close>

fun enqueue_times :: "int \<Rightarrow> (clock \<times> 'a TextStreamPart) list \<Rightarrow> int list" where
  "enqueue_times lastTime [] = []"
| "enqueue_times lastTime ((k, chunk) # rest) =
     enqueue_time k chunk lastTime #
     enqueue_times (enqueue_time k chunk lastTime + lag k) rest"

section \<open>The provider-configuration endpoint (src/unnamed/part_001)\<close>

text \<open>
  The values a parsed request body and its properties can take. \<open>JSON.parse\<close> never
  yields \<open>undefined\<close>; reading a property that is not there does.
\<close>

datatype js_value =
    JUndefined
  | JNull
  | JBool bool
  | JNum real
  | JStr string
  | JArr "js_value list"
  | JObj "(string \<times> js_value) list"

text \<open>JavaScript's truthiness, which \<open>!provider\<close> and \<open>!apiKey\<close> test.\<close>

fun truthy :: "js_value \<Rightarrow> bool" where
  "truthy JUndefined = False"
| "truthy JNull = False"
| "truthy (JBool b) = b"
| "truthy (JNum n) = (n \<noteq> 0)"
| "truthy (JStr s) = (s \<noteq> [])"
| "truthy (JArr xs) = True"
| "truthy (JObj kvs) = True"

text \<open>
  Line 15, \<open>const { provider, apiKey } = body\<close>: destructuring \<open>null\<close> throws a
  \<open>TypeError\<close>; a number, boolean, string or array has neither property; in an object the
  last of several equal keys is the one \<open>JSON.parse\<close> keeps.
\<close>

definition property :: "(string \<times> js_value) list \<Rightarrow> string \<Rightarrow> js_value" where
  "property kvs k = (case map_of (rev kvs) k of None \<Rightarrow> JUndefined | Some v \<Rightarrow> v)"

fun destructure :: "js_value \<Rightarrow> error + (js_value \<times> js_value)" where
  "destructure JNull = Inl TypeError"
| "destructure JUndefined = Inl TypeError"
| "destructure (JObj kvs) = Inr (property kvs ''provider'', property kvs ''apiKey'')"
| "destructure v = Inr (JUndefined, JUndefined)"

text \<open>The session \<open>auth()\<close> resolves to, and line 10's \<open>session?.user?.id\<close>.\<close>

record user =
  user_id :: "string option"

record auth_session =
  user :: "user option"

definition session_user_id :: "auth_session option \<Rightarrow> string option" where
  "session_user_id session =
     (case session of
        None \<Rightarrow> None
      | Some s \<Rightarrow> (case user s of None \<Rightarrow> None | Some u \<Rightarrow> user_id u))"

text \<open>
  A request as the handler reads it: what \<open>auth()\<close> settles to and what
  \<open>request.json()\<close> settles to (it rejects with a \<open>SyntaxError\<close> on a body that is not JSON).
\<close>

record request =
  auth :: "error + auth_session option"
  json :: "error + js_value"

datatype response_body = ErrorBody string | SuccessBody string

record response =
  status :: nat
  body :: response_body

text \<open>
  The stored configurations, one API key per user and provider, and
  \<open>saveProviderConfig\<close> as src/lib/providers.ts writes it: an insert that, on a conflict
  on (user, provider), replaces the key.
\<close>

type_synonym store = "(string \<times> js_value) \<Rightarrow> js_value option"

definition saveProviderConfig :: "store \<Rightarrow> string \<Rightarrow> js_value \<Rightarrow> js_value \<Rightarrow> error + store" where
  "saveProviderConfig db userId provider apiKey = Inr (db((userId, provider) \<mapsto> apiKey))"

definition failed :: response where
  "failed = \<lparr>status = 500, body = ErrorBody ''Failed to save provider configuration''\<rparr>"

text \<open>
  The \<open>POST\<close> handler. The storage call is a parameter \<open>save\<close> (the handler imports it
  from a module of queries); every throw inside the \<open>try\<close> block ends in the \<open>catch\<close>
  block's 500 response.
\<close>

definition POST ::
  "(store \<Rightarrow> string \<Rightarrow> js_value \<Rightarrow> js_value \<Rightarrow> error + store) \<Rightarrow> request \<Rightarrow> store \<Rightarrow> response \<times> store" where
  "POST save req db =
     (case auth req of
        Inl e \<Rightarrow> (failed, db)
      | Inr session \<Rightarrow>
          (case session_user_id session of
             None \<Rightarrow> (\<lparr>status = 401, body = ErrorBody ''Unauthorized''\<rparr>, db)
           | Some uid \<Rightarrow>
               if uid = [] then (\<lparr>status = 401, body = ErrorBody ''Unauthorized''\<rparr>, db)
               else
                 (case json req of
                    Inl e \<Rightarrow> (failed, db)
                  | Inr b \<Rightarrow>
                      (case destructure b of
                         Inl e \<Rightarrow> (failed, db)
                       | Inr (provider, apiKey) \<Rightarrow>
                           if \<not> truthy provider \<or> \<not> truthy apiKey
                           then (\<lparr>status = 400, body = ErrorBody ''Provider and API key are required''\<rparr>, db)
                           else if provider \<noteq> JStr ''openrouter'' \<and> provider \<noteq> JStr ''deepinfra''
                           then (\<lparr>status = 400, body = ErrorBody ''Invalid provider''\<rparr>, db)
                           else
                             (case save db uid provider apiKey of
                                Inl e \<Rightarrow> (failed, db)
                              | Inr db' \<Rightarrow>
                                  (\<lparr>status = 200,
                                    body = SuccessBody ''Provider configuration saved successfully''\<rparr>,
                                   db'))))))"

text \<open>A request is authenticated when \<open>session?.user?.id\<close> is a non-empty string.\<close>

definition authenticated :: "request \<Rightarrow> bool" where
  "authenticated req =
     (case auth req of
        Inl e \<Rightarrow> False
      | Inr session \<Rightarrow> (case session_user_id session of None \<Rightarrow> False | Some uid \<Rightarrow> uid \<noteq> []))"


text \<open>
  The bodies the handler is meant to accept: an object whose \<open>provider\<close> and \<open>apiKey\<close>
  are both there (truthy) and whose \<open>provider\<close> is exactly one of the two names.
\<close>

fun acceptable :: "js_value \<Rightarrow> bool" where
  "acceptable (JObj kvs) =
     (truthy (property kvs ''provider'') \<and> truthy (property kvs ''apiKey'') \<and>
      (property kvs ''provider'' = JStr ''openrouter'' \<or>
       property kvs ''provider'' = JStr ''deepinfra''))"
| "acceptable v = False"

definition no_configs :: store where
  "no_configs = Map.empty"

section \<open>The stream relay\<close>

text \<open>Modelled from the spec: the relay that forwards upstream chunks to the client as
  server-sent events is not among the source files (only a description of the wire format
  is, in src/unnamed/part_000). Its states, events and transitions below follow the
  specification's component design and wire framing.\<close>

datatype relay_state = NOT_STARTED | STREAMING | ENDED | ERRORED

text \<open>Modelled from the spec: the classified causes of a failure before the first chunk.\<close>

datatype cause =
    InvalidInput
  | AuthFailure
  | CreditFailure
  | RateLimited
  | ProviderError
  | NoProvider

text \<open>Modelled from the spec: an upstream failure, with the code and message it carries.\<close>

record upstream_error =
  cause :: cause
  code :: string
  message :: string

text \<open>Modelled from the spec: the usage counters of the final chunk.\<close>

record usage =
  prompt_tokens :: nat
  completion_tokens :: nat

text \<open>Modelled from the spec: what the upstream subscription delivers: a text chunk, a
  failure, or its normal end.\<close>

datatype upstream = Chunk string | Failure upstream_error | End usage

text \<open>Modelled from the spec: the fields every event of one session shares.\<close>

record envelope =
  env_id :: string
  env_created :: nat
  env_model :: string
  env_provider :: string

text \<open>Modelled from the spec: one \<open>data:\<close> event of the wire framing.\<close>

record sse_event =
  ev_id :: string
  ev_object :: string
  ev_created :: nat
  ev_model :: string
  ev_provider :: string
  ev_content :: string
  finish_reason :: "string option"
  ev_usage :: "usage option"
  ev_error :: "(string \<times> string) option"

text \<open>Modelled from the spec: what the client has observed of a session: the relay's state,
  the HTTP status once the headers are committed, the JSON error body of a failed
  response, the events written so far, and whether the connection is still open.
\<close>

record relay =
  phase :: relay_state
  http_status :: "nat option"
  error_body :: "(string \<times> string) option"
  events :: "sse_event list"
  connection_open :: bool

text \<open>Modelled from the spec: a session before anything has arrived from upstream.\<close>

definition relay_start :: relay where
  "relay_start =
     \<lparr>phase = NOT_STARTED, http_status = None, error_body = None, events = [],
      connection_open = True\<rparr>"

text \<open>Modelled from the spec: the status a failure before the first chunk is answered with,
  by classified cause.
\<close>

fun status_of :: "cause \<Rightarrow> nat" where
  "status_of InvalidInput = 400"
| "status_of AuthFailure = 401"
| "status_of CreditFailure = 402"
| "status_of RateLimited = 429"
| "status_of ProviderError = 502"
| "status_of NoProvider = 503"

text \<open>Modelled from the spec: the fields every event of the wire framing carries.\<close>

definition event :: "envelope \<Rightarrow> sse_event" where
  "event m =
     \<lparr>ev_id = env_id m, ev_object = ''chat.completion.chunk'', ev_created = env_created m,
      ev_model = env_model m, ev_provider = env_provider m, ev_content = [],
      finish_reason = None, ev_usage = None, ev_error = None\<rparr>"

text \<open>Modelled from the spec: the event that forwards one text chunk.\<close>

definition content_event :: "envelope \<Rightarrow> string \<Rightarrow> sse_event" where
  "content_event m text = (event m)\<lparr>ev_content := text\<rparr>"

text \<open>Modelled from the spec: the event of a failure after the first chunk: the error at the top
  level and \<open>finish_reason\<close> \<open>error\<close>.\<close>

definition error_event :: "envelope \<Rightarrow> upstream_error \<Rightarrow> sse_event" where
  "error_event m e =
     (event m)\<lparr>finish_reason := Some ''error'', ev_error := Some (code e, message e)\<rparr>"

text \<open>Modelled from the spec: the final, usage-bearing event of a normal end.\<close>

definition usage_event :: "envelope \<Rightarrow> usage \<Rightarrow> sse_event" where
  "usage_event m u = (event m)\<lparr>ev_usage := Some u\<rparr>"

text \<open>Modelled from the spec: the transitions of the relay. A failure in \<open>NOT_STARTED\<close> is
  answered with an error status and a JSON body; a failure in \<open>STREAMING\<close> adds one error
  event and closes; a normal end adds the usage-bearing chunk and closes; the two terminal
  states take no further event.
\<close>

fun relay_step :: "envelope \<Rightarrow> relay \<Rightarrow> upstream \<Rightarrow> relay" where
  "relay_step m r (Chunk text) =
     (case phase r of
        NOT_STARTED \<Rightarrow>
          r\<lparr>phase := STREAMING, http_status := Some 200, events := events r @ [content_event m text]\<rparr>
      | STREAMING \<Rightarrow> r\<lparr>events := events r @ [content_event m text]\<rparr>
      | ENDED \<Rightarrow> r
      | ERRORED \<Rightarrow> r)"
| "relay_step m r (Failure e) =
     (case phase r of
        NOT_STARTED \<Rightarrow>
          r\<lparr>phase := ERRORED, http_status := Some (status_of (cause e)),
            error_body := Some (code e, message e), connection_open := False\<rparr>
      | STREAMING \<Rightarrow>
          r\<lparr>phase := ERRORED, events := events r @ [error_event m e], connection_open := False\<rparr>
      | ENDED \<Rightarrow> r
      | ERRORED \<Rightarrow> r)"
| "relay_step m r (End u) =
     (case phase r of
        NOT_STARTED \<Rightarrow>
          r\<lparr>phase := ENDED, http_status := Some 200, events := events r @ [usage_event m u],
            connection_open := False\<rparr>
      | STREAMING \<Rightarrow>
          r\<lparr>phase := ENDED, events := events r @ [usage_event m u], connection_open := False\<rparr>
      | ENDED \<Rightarrow> r
      | ERRORED \<Rightarrow> r)"

text \<open>Modelled from the spec: a session is the relay's transitions applied to the upstream
  events in order.\<close>

definition relay_run :: "envelope \<Rightarrow> upstream list \<Rightarrow> relay \<Rightarrow> relay" where
  "relay_run m ups r = foldl (relay_step m) r ups"


section \<open>Properties of the pacing transform\<close>

subsection \<open>One call of the callback\<close>

lemma transform_ok:
  assumes "cancel k = None" "state (controller s) = Readable"
  shows "transform k chunk s =
     Inr (s\<lparr>controller := (controller s)\<lparr>queue := queue (controller s) @
                 [(enqueue_time k chunk (lastChunkTime s), chunk)]\<rparr>,
            lastChunkTime := enqueue_time k chunk (lastChunkTime s) + lag k\<rparr>)"
  using assms by (simp add: transform_def enqueue_def Let_def)

lemma transform_Inr:
  assumes "transform k chunk s = Inr s'"
  shows "state (controller s') = Readable \<and> closes (controller s') = closes (controller s) \<and>
         queue (controller s') =
           queue (controller s) @ [(enqueue_time k chunk (lastChunkTime s), chunk)] \<and>
         lastChunkTime s' = enqueue_time k chunk (lastChunkTime s) + lag k"
  using assms
  by (auto simp: transform_def enqueue_def cancelled_def Let_def split: option.splits if_splits)

subsection \<open>A whole run\<close>

lemma run_Inr:
  "run inputs s = Inr s' \<Longrightarrow>
     (inputs = [] \<or> state (controller s') = Readable) \<and>
     closes (controller s') = closes (controller s) \<and>
     map snd (queue (controller s')) = map snd (queue (controller s)) @ map snd inputs"
proof (induction inputs arbitrary: s)
  case Nil
  then show ?case by simp
next
  case (Cons a inputs)
  obtain k chunk where a: "a = (k, chunk)" by (cases a)
  from Cons.prems a obtain s1
    where s1: "transform k chunk s = Inr s1" and r: "run inputs s1 = Inr s'"
    by (auto split: sum.splits)
  from transform_Inr[OF s1] Cons.IH[OF r] a r show ?case
    by (cases inputs) auto
qed

lemma run_ok:
  assumes "\<forall>x\<in>set inputs. cancel (fst x) = None" "state (controller s) = Readable"
  shows "\<exists>s'. run inputs s = Inr s'"
  using assms
proof (induction inputs arbitrary: s)
  case Nil
  then show ?case by simp
next
  case (Cons a inputs)
  obtain k chunk where a: "a = (k, chunk)" by (cases a)
  from Cons.prems a have c: "cancel k = None" by simp
  from transform_ok[OF c Cons.prems(2), of chunk]
  obtain s1 where t: "transform k chunk s = Inr s1"
    by blast
  from transform_Inr[OF t] have "state (controller s1) = Readable" by simp
  with Cons.IH[of s1] Cons.prems(1) obtain s' where "run inputs s1 = Inr s'" by auto
  with t a show ?case by simp
qed

lemma run_start:
  assumes "run inputs start = Inr s"
  shows "state (controller s) = Readable \<and> closes (controller s) = 0"
proof (cases inputs)
  case Nil
  with assms show ?thesis by (auto simp: start_def)
next
  case (Cons a list)
  with run_Inr[OF assms] show ?thesis by (simp add: start_def)
qed

lemma enqueue_time_text:
  assumes "type chunk = ''text''"
  shows "lastTime + MIN_DELAY_MS + min 0 (late k) \<le> enqueue_time k chunk lastTime"
  using assms
  by (auto simp: enqueue_time_def delay_def timeSinceLastChunk_def split: option.splits if_splits)

lemma length_enqueue_times: "length (enqueue_times lastTime inputs) = length inputs"
  by (induction lastTime inputs rule: enqueue_times.induct) simp_all

lemma run_enqueue_times:
  assumes "\<forall>x\<in>set inputs. cancel (fst x) = None \<and> 0 \<le> lag (fst x)"
    "state (controller s) = Readable"
  shows "\<exists>s'. run inputs s = Inr s' \<and>
           map fst (queue (controller s')) =
             map fst (queue (controller s)) @ enqueue_times (lastChunkTime s) inputs"
  using assms
proof (induction inputs arbitrary: s)
  case Nil
  then show ?case by simp
next
  case (Cons a inputs)
  obtain k chunk where a: "a = (k, chunk)" by (cases a)
  from Cons.prems a have c: "cancel k = None" by simp
  let ?t = "enqueue_time k chunk (lastChunkTime s)"
  define s1 where
    "s1 = s\<lparr>controller := (controller s)\<lparr>queue := queue (controller s) @ [(?t, chunk)]\<rparr>,
            lastChunkTime := ?t + lag k\<rparr>"
  have t: "transform k chunk s = Inr s1"
    using transform_ok[OF c Cons.prems(2), of chunk] by (simp add: s1_def)
  have "\<exists>s'. run inputs s1 = Inr s' \<and>
           map fst (queue (controller s')) =
             map fst (queue (controller s1)) @ enqueue_times (lastChunkTime s1) inputs"
    by (rule Cons.IH) (use Cons.prems in \<open>auto simp: s1_def\<close>)
  then obtain s' where r: "run inputs s1 = Inr s'"
    and q: "map fst (queue (controller s')) =
             map fst (queue (controller s1)) @ enqueue_times (lastChunkTime s1) inputs"
    by blast
  from q have "map fst (queue (controller s')) =
      map fst (queue (controller s)) @ enqueue_times (lastChunkTime s) ((k, chunk) # inputs)"
    by (simp add: s1_def)
  with r t a show ?case by simp
qed

text \<open>
  In a run whose second clock reads are never earlier than the enqueue before them, a text
  chunk is enqueued at least \<open>MIN_DELAY_MS\<close> after the chunk before it, less the time by
  which its timer fired early.
\<close>

lemma enqueue_times_spacing:
  assumes "\<forall>x\<in>set inputs. 0 \<le> lag (fst x)" "Suc i < length inputs"
    "type (snd (inputs ! Suc i)) = ''text''"
  shows "enqueue_times lastTime inputs ! i + MIN_DELAY_MS + min 0 (late (fst (inputs ! Suc i)))
           \<le> enqueue_times lastTime inputs ! Suc i"
  using assms
proof (induction lastTime inputs arbitrary: i rule: enqueue_times.induct)
  case (1 lastTime)
  then show ?case by simp
next
  case (2 lastTime k chunk rest)
  let ?t = "enqueue_time k chunk lastTime"
  show ?case
  proof (cases i)
    case 0
    with "2.prems" obtain k1 chunk1 rest1 where rest: "rest = (k1, chunk1) # rest1"
      by (cases rest) auto
    with "2.prems" 0 have tx: "type chunk1 = ''text''" and lag: "0 \<le> lag k"
      by simp_all
    from enqueue_time_text[OF tx, of "?t + lag k" k1] lag
    have "?t + MIN_DELAY_MS + min 0 (late k1) \<le> enqueue_time k1 chunk1 (?t + lag k)"
      by simp
    with 0 rest show ?thesis by simp
  next
    case (Suc j)
    with "2.prems" "2.IH"[of j] show ?thesis by simp
  qed
qed

subsection \<open>The claims about the pacing transform\<close>

text \<open>
  C1. In every run that nobody cancels and whose clock does not step back between an
  enqueue and the clock read after it, the run succeeds, the chunks come out in the order
  they went in, and every text chunk is enqueued at least \<open>MIN_DELAY_MS\<close> after the chunk
  before it, less the time by which its timer fired early (\<open>min 0 late\<close>): a full
  \<open>MIN_DELAY_MS\<close> whenever the timer is not early, however close together the chunks
  arrived. A text chunk that arrives less than \<open>MIN_DELAY_MS\<close> after the previous clock
  read is delayed by \<open>MIN_DELAY_MS\<close> minus the elapsed time, and after every enqueue
  \<open>lastChunkTime\<close> is set to the clock read that follows the enqueue.
\<close>

theorem typedTextTransform_spacing:
  assumes "\<forall>x\<in>set inputs. cancel (fst x) = None \<and> 0 \<le> lag (fst x)"
  shows "(\<exists>s'. run inputs start = Inr s' \<and>
           map snd (queue (controller s')) = map snd inputs \<and>
           (\<forall>i. Suc i < length inputs \<longrightarrow> type (snd (inputs ! Suc i)) = ''text'' \<longrightarrow>
                fst (queue (controller s') ! i) + MIN_DELAY_MS +
                  min 0 (late (fst (inputs ! Suc i)))
                  \<le> fst (queue (controller s') ! Suc i))) \<and>
         (type chunk = ''text'' \<and> now k - lastChunkTime s < MIN_DELAY_MS \<longrightarrow>
            delay (lastChunkTime s) chunk (now k) =
              Some (MIN_DELAY_MS - (now k - lastChunkTime s))) \<and>
         (transform k chunk s = Inr s1 \<longrightarrow>
            queue (controller s1) =
              queue (controller s) @ [(enqueue_time k chunk (lastChunkTime s), chunk)] \<and>
            lastChunkTime s1 = enqueue_time k chunk (lastChunkTime s) + lag k)"
proof -
  have "\<exists>s'. run inputs start = Inr s' \<and>
           map fst (queue (controller s')) =
             map fst (queue (controller start)) @ enqueue_times (lastChunkTime start) inputs"
    using run_enqueue_times[OF assms, of start] by (simp add: start_def)
  then obtain s' where r: "run inputs start = Inr s'"
    and ts: "map fst (queue (controller s')) = enqueue_times 0 inputs"
    by (auto simp: start_def)
  from run_Inr[OF r] have m: "map snd (queue (controller s')) = map snd inputs"
    by (simp add: start_def)
  then have len: "length (queue (controller s')) = length inputs"
    by (metis length_map)
  from assms have lags: "\<forall>x\<in>set inputs. 0 \<le> lag (fst x)" by blast
  have "fst (queue (controller s') ! i) + MIN_DELAY_MS + min 0 (late (fst (inputs ! Suc i)))
          \<le> fst (queue (controller s') ! Suc i)"
    if i: "Suc i < length inputs" and tx: "type (snd (inputs ! Suc i)) = ''text''" for i
  proof -
    have "fst (queue (controller s') ! i) = enqueue_times 0 inputs ! i"
      using ts i len by (metis Suc_lessD nth_map)
    moreover have "fst (queue (controller s') ! Suc i) = enqueue_times 0 inputs ! Suc i"
      using ts i len by (metis nth_map)
    ultimately show ?thesis
      using enqueue_times_spacing[OF lags i tx, of 0] by simp
  qed
  with r m have run_part: "\<exists>s'. run inputs start = Inr s' \<and>
           map snd (queue (controller s')) = map snd inputs \<and>
           (\<forall>i. Suc i < length inputs \<longrightarrow> type (snd (inputs ! Suc i)) = ''text'' \<longrightarrow>
                fst (queue (controller s') ! i) + MIN_DELAY_MS +
                  min 0 (late (fst (inputs ! Suc i)))
                  \<le> fst (queue (controller s') ! Suc i))"
    by blast
  have delay_part: "type chunk = ''text'' \<and> now k - lastChunkTime s < MIN_DELAY_MS \<longrightarrow>
            delay (lastChunkTime s) chunk (now k) =
              Some (MIN_DELAY_MS - (now k - lastChunkTime s))"
    by (simp add: delay_def timeSinceLastChunk_def)
  have stamp_part: "transform k chunk s = Inr s1 \<longrightarrow>
            queue (controller s1) =
              queue (controller s) @ [(enqueue_time k chunk (lastChunkTime s), chunk)] \<and>
            lastChunkTime s1 = enqueue_time k chunk (lastChunkTime s) + lag k"
    using transform_Inr[of k chunk s s1] by blast
  from run_part delay_part stamp_part show ?thesis by blast
qed

theorem typedTextTransform_spacing_witness:
  "cancel (fst (\<lparr>now = 1000, late = 0, lag = 0, cancel = None\<rparr>,
                \<lparr>type = ''text'', payload = ''Hello''\<rparr>)) = None \<and>
   0 \<le> lag (fst (\<lparr>now = 1000, late = 0, lag = 0, cancel = None\<rparr>,
                  \<lparr>type = ''text'', payload = ''Hello''\<rparr>)) \<and>
   cancel (fst (\<lparr>now = 1005, late = - 1, lag = 0, cancel = None\<rparr>,
                \<lparr>type = ''text'', payload = '' world''\<rparr>)) = None \<and>
   0 \<le> lag (fst (\<lparr>now = 1005, late = - 1, lag = 0, cancel = None\<rparr>,
                  \<lparr>type = ''text'', payload = '' world''\<rparr>)) \<and>
   (\<exists>s'. run
       [(\<lparr>now = 1000, late = 0, lag = 0, cancel = None\<rparr>, \<lparr>type = ''text'', payload = ''Hello''\<rparr>),
        (\<lparr>now = 1005, late = - 1, lag = 0, cancel = None\<rparr>, \<lparr>type = ''text'', payload = '' world''\<rparr>)]
       start = Inr s' \<and>
      map snd (queue (controller s')) =
        [\<lparr>type = ''text'', payload = ''Hello''\<rparr>, \<lparr>type = ''text'', payload = '' world''\<rparr>] \<and>
      fst (queue (controller s') ! 0) + MIN_DELAY_MS + min 0 (- 1)
        \<le> fst (queue (controller s') ! 1)) \<and>
   delay 1000 \<lparr>type = ''text'', payload = '' world''\<rparr> 1005 = Some 15 \<and>
   transform \<lparr>now = 1005, late = - 1, lag = 0, cancel = None\<rparr>
     \<lparr>type = ''text'', payload = '' world''\<rparr>
     \<lparr>lastChunkTime = 1000,
      controller = \<lparr>queue = [(1000, \<lparr>type = ''text'', payload = ''Hello''\<rparr>)],
                    state = Readable, closes = 0\<rparr>\<rparr> =
   Inr \<lparr>lastChunkTime = 1019,
        controller = \<lparr>queue = [(1000, \<lparr>type = ''text'', payload = ''Hello''\<rparr>),
                               (1019, \<lparr>type = ''text'', payload = '' world''\<rparr>)],
                      state = Readable, closes = 0\<rparr>\<rparr>"
proof -
  let ?k1 = "\<lparr>now = 1000, late = 0, lag = 0, cancel = None\<rparr>"
  let ?k2 = "\<lparr>now = 1005, late = - 1, lag = 0, cancel = None\<rparr>"
  let ?hello = "\<lparr>type = ''text'', payload = ''Hello''\<rparr>"
  let ?world = "\<lparr>type = ''text'', payload = '' world''\<rparr>"
  let ?s = "\<lparr>lastChunkTime = 1000,
      controller = \<lparr>queue = [(1000, ?hello)], state = Readable, closes = 0\<rparr>\<rparr>"
  let ?s1 = "\<lparr>lastChunkTime = 1019,
        controller = \<lparr>queue = [(1000, ?hello), (1019, ?world)], state = Readable, closes = 0\<rparr>\<rparr>"
  have hyp: "\<forall>x\<in>set [(?k1, ?hello), (?k2, ?world)]. cancel (fst x) = None \<and> 0 \<le> lag (fst x)"
    by simp
  have hyps: "cancel (fst (?k1, ?hello)) = None \<and> 0 \<le> lag (fst (?k1, ?hello)) \<and>
              cancel (fst (?k2, ?world)) = None \<and> 0 \<le> lag (fst (?k2, ?world))"
    by simp
  have tr: "transform ?k2 ?world ?s = Inr ?s1"
    by (simp add: transform_def enqueue_def enqueue_time_def delay_def timeSinceLastChunk_def
        MIN_DELAY_MS_def)
  note th = typedTextTransform_spacing[OF hyp, of ?world ?k2 ?s ?s1]
  from th obtain s' where r: "run [(?k1, ?hello), (?k2, ?world)] start = Inr s'"
    and m: "map snd (queue (controller s')) = map snd [(?k1, ?hello), (?k2, ?world)]"
    and sp: "\<forall>i. Suc i < length [(?k1, ?hello), (?k2, ?world)] \<longrightarrow>
               type (snd ([(?k1, ?hello), (?k2, ?world)] ! Suc i)) = ''text'' \<longrightarrow>
               fst (queue (controller s') ! i) + MIN_DELAY_MS +
                 min 0 (late (fst ([(?k1, ?hello), (?k2, ?world)] ! Suc i)))
                 \<le> fst (queue (controller s') ! Suc i)"
    by blast
  from sp[rule_format, of 0]
  have "fst (queue (controller s') ! 0) + MIN_DELAY_MS + min 0 (- 1)
          \<le> fst (queue (controller s') ! 1)"
    by simp
  with r m have run_part: "\<exists>s'. run [(?k1, ?hello), (?k2, ?world)] start = Inr s' \<and>
      map snd (queue (controller s')) = [?hello, ?world] \<and>
      fst (queue (controller s') ! 0) + MIN_DELAY_MS + min 0 (- 1)
        \<le> fst (queue (controller s') ! 1)"
    by simp
  from th have "delay 1000 ?world 1005 = Some 15"
    by (simp add: MIN_DELAY_MS_def)
  with hyps run_part tr show ?thesis by blast
qed

text \<open>
  The claim as it is written fails: two text chunks arrive back to back at 1000; the
  second waits for its 20 ms, the timer's promise resolves 1 ms early on the clock of
  \<open>Date.now()\<close>, and the second chunk is enqueued 19 ms after the first.
\<close>

theorem typedTextTransform_spacing_counterexample:
  "delay 1000 \<lparr>type = ''text'', payload = '' world''\<rparr> 1000 = Some 20 \<and>
   run [(\<lparr>now = 1000, late = 0, lag = 0, cancel = None\<rparr>, \<lparr>type = ''text'', payload = ''Hello''\<rparr>),
        (\<lparr>now = 1000, late = - 1, lag = 0, cancel = None\<rparr>, \<lparr>type = ''text'', payload = '' world''\<rparr>)]
     start =
   Inr \<lparr>lastChunkTime = 1019,
        controller = \<lparr>queue = [(1000, \<lparr>type = ''text'', payload = ''Hello''\<rparr>),
                               (1019, \<lparr>type = ''text'', payload = '' world''\<rparr>)],
                      state = Readable, closes = 0\<rparr>\<rparr> \<and>
   (1019::int) - 1000 < MIN_DELAY_MS"
  by (simp add: start_def transform_def enqueue_def enqueue_time_def delay_def
      timeSinceLastChunk_def MIN_DELAY_MS_def)

text \<open>
  C2. When no consumer cancels, the run succeeds and the chunks enqueued are exactly the
  chunks given, in the same order and as many: none dropped, merged, duplicated or changed.
\<close>

theorem typedTextTransform_identity:
  assumes "\<forall>x\<in>set inputs. cancel (fst x) = None"
  shows "\<exists>s'. run inputs start = Inr s' \<and>
           map snd (queue (controller s')) = map snd inputs \<and>
           length (queue (controller s')) = length inputs"
proof -
  from run_ok[OF assms, of start] obtain s' where r: "run inputs start = Inr s'"
    by (auto simp: start_def)
  from run_Inr[OF r] have m: "map snd (queue (controller s')) = map snd inputs"
    by (simp add: start_def)
  then have "length (queue (controller s')) = length inputs"
    by (metis length_map)
  with r m show ?thesis by blast
qed

theorem typedTextTransform_identity_witness:
  "cancel (fst (\<lparr>now = 1000, late = 0, lag = 0, cancel = None\<rparr>,
                \<lparr>type = ''tool-call'', payload = ''ls''\<rparr>)) = None \<and>
   cancel (fst (\<lparr>now = 1001, late = 2, lag = 1, cancel = None\<rparr>,
                \<lparr>type = ''text'', payload = ''done''\<rparr>)) = None \<and>
   (\<exists>s'. run
       [(\<lparr>now = 1000, late = 0, lag = 0, cancel = None\<rparr>, \<lparr>type = ''tool-call'', payload = ''ls''\<rparr>),
        (\<lparr>now = 1001, late = 2, lag = 1, cancel = None\<rparr>, \<lparr>type = ''text'', payload = ''done''\<rparr>)]
       start = Inr s' \<and>
      map snd (queue (controller s')) =
        [\<lparr>type = ''tool-call'', payload = ''ls''\<rparr>, \<lparr>type = ''text'', payload = ''done''\<rparr>] \<and>
      length (queue (controller s')) = 2)"
  using typedTextTransform_identity
    [of "[(\<lparr>now = 1000, late = 0, lag = 0, cancel = None\<rparr>, \<lparr>type = ''tool-call'', payload = ''ls''\<rparr>),
          (\<lparr>now = 1001, late = 2, lag = 1, cancel = None\<rparr>, \<lparr>type = ''text'', payload = ''done''\<rparr>)]"]
  by (simp add: numeral_2_eq_2)

text \<open>
  C5. A chunk whose type is not \<open>text\<close> is never delayed, whatever the time since the
  previous chunk: no timer is set, the enqueue runs at the time the call started, and the
  chunk enqueued is the chunk given.
\<close>

theorem non_text_forwarded_immediately:
  assumes "type chunk \<noteq> ''text''"
  shows "delay (lastChunkTime s) chunk (now k) = None \<and>
         enqueue_time k chunk (lastChunkTime s) = now k \<and>
         (cancel k = None \<and> state (controller s) = Readable \<longrightarrow>
            transform k chunk s =
              Inr (s\<lparr>controller := (controller s)\<lparr>queue := queue (controller s) @ [(now k, chunk)]\<rparr>,
                     lastChunkTime := now k + lag k\<rparr>))"
proof -
  have d: "delay (lastChunkTime s) chunk (now k) = None"
    using assms by (simp add: delay_def)
  then have e: "enqueue_time k chunk (lastChunkTime s) = now k"
    by (simp add: enqueue_time_def)
  show ?thesis using d e transform_ok[of k s chunk] by simp
qed

theorem non_text_forwarded_immediately_witness:
  "type \<lparr>type = ''finish'', payload = ''stop''\<rparr> \<noteq> ''text'' \<and>
   cancel \<lparr>now = 1001, late = 0, lag = 0, cancel = None\<rparr> = None \<and>
   state (controller \<lparr>lastChunkTime = 1000,
      controller = \<lparr>queue = [(1000, \<lparr>type = ''text'', payload = ''Hello''\<rparr>)],
                    state = Readable, closes = 0\<rparr>\<rparr>) = Readable \<and>
   delay 1000 \<lparr>type = ''finish'', payload = ''stop''\<rparr> 1001 = None \<and>
   enqueue_time \<lparr>now = 1001, late = 0, lag = 0, cancel = None\<rparr>
     \<lparr>type = ''finish'', payload = ''stop''\<rparr> 1000 = 1001 \<and>
   transform \<lparr>now = 1001, late = 0, lag = 0, cancel = None\<rparr>
     \<lparr>type = ''finish'', payload = ''stop''\<rparr>
     \<lparr>lastChunkTime = 1000,
      controller = \<lparr>queue = [(1000, \<lparr>type = ''text'', payload = ''Hello''\<rparr>)],
                    state = Readable, closes = 0\<rparr>\<rparr> =
   Inr \<lparr>lastChunkTime = 1001,
        controller = \<lparr>queue = [(1000, \<lparr>type = ''text'', payload = ''Hello''\<rparr>),
                               (1001, \<lparr>type = ''finish'', payload = ''stop''\<rparr>)],
                      state = Readable, closes = 0\<rparr>\<rparr>"
  using non_text_forwarded_immediately
    [of "\<lparr>type = ''finish'', payload = ''stop''\<rparr>"
        "\<lparr>lastChunkTime = 1000,
          controller = \<lparr>queue = [(1000, \<lparr>type = ''text'', payload = ''Hello''\<rparr>)],
                        state = Readable, closes = 0\<rparr>\<rparr>"
        "\<lparr>now = 1001, late = 0, lag = 0, cancel = None\<rparr>"]
  by simp



text \<open>
  C9. \<open>lastChunkTime\<close> starts at 0, so on the first call the elapsed time is the clock
  reading itself: whenever that reading is at least \<open>MIN_DELAY_MS\<close> (any time later than
  20 ms after the epoch) the first chunk, text or not, is enqueued without a timer, at the
  time the call started.
\<close>

theorem first_chunk_not_delayed:
  assumes "MIN_DELAY_MS \<le> now k" "cancel k = None"
  shows "lastChunkTime start = 0 \<and>
         delay (lastChunkTime start) chunk (now k) = None \<and>
         transform k chunk start =
           Inr \<lparr>lastChunkTime = now k + lag k,
                controller = \<lparr>queue = [(now k, chunk)], state = Readable, closes = 0\<rparr>\<rparr>"
  using assms
  by (simp add: start_def delay_def timeSinceLastChunk_def transform_def enqueue_time_def
      enqueue_def Let_def)

theorem first_chunk_not_delayed_witness:
  "MIN_DELAY_MS \<le> now \<lparr>now = 1000, late = 0, lag = 0, cancel = None\<rparr> \<and>
   cancel \<lparr>now = 1000, late = 0, lag = 0, cancel = None\<rparr> = None \<and>
   delay 0 \<lparr>type = ''text'', payload = ''Hello''\<rparr> 1000 = None \<and>
   transform \<lparr>now = 1000, late = 0, lag = 0, cancel = None\<rparr>
     \<lparr>type = ''text'', payload = ''Hello''\<rparr> start =
   Inr \<lparr>lastChunkTime = 1000,
        controller = \<lparr>queue = [(1000, \<lparr>type = ''text'', payload = ''Hello''\<rparr>)],
                      state = Readable, closes = 0\<rparr>\<rparr>"
  using first_chunk_not_delayed
    [of "\<lparr>now = 1000, late = 0, lag = 0, cancel = None\<rparr>"
        "\<lparr>type = ''text'', payload = ''Hello''\<rparr>"]
  by (simp add: MIN_DELAY_MS_def start_def)

text \<open>
  C8. When a run reaches the end of its input, \<open>flush\<close> enqueues nothing and the end of
  the stream is signalled to the consumer exactly once: not before \<open>flush\<close>, once by
  \<open>flush\<close>, and not again when the stream machinery closes the readable side after it.
\<close>

theorem flush_signals_completion_once:
  assumes "run inputs start = Inr s"
  shows "queue (controller (flush s)) = queue (controller s) \<and>
         closes (controller s) = 0 \<and>
         closes (controller (flush s)) = 1 \<and>
         queue (controller (end_of_stream s)) = queue (controller s) \<and>
         closes (controller (end_of_stream s)) = 1"
  using run_start[OF assms]
  by (simp add: flush_def terminate_def close_def end_of_stream_def)

theorem flush_signals_completion_once_witness:
  "run [(\<lparr>now = 1000, late = 0, lag = 0, cancel = None\<rparr>, \<lparr>type = ''text'', payload = ''Hello''\<rparr>)]
     start =
   Inr \<lparr>lastChunkTime = 1000,
        controller = \<lparr>queue = [(1000, \<lparr>type = ''text'', payload = ''Hello''\<rparr>)],
                      state = Readable, closes = 0\<rparr>\<rparr> \<and>
   queue (controller (flush \<lparr>lastChunkTime = 1000,
        controller = \<lparr>queue = [(1000, \<lparr>type = ''text'', payload = ''Hello''\<rparr>)],
                      state = Readable, closes = 0\<rparr>\<rparr>)) =
     [(1000, \<lparr>type = ''text'', payload = ''Hello''\<rparr>)] \<and>
   closes (controller (flush \<lparr>lastChunkTime = 1000,
        controller = \<lparr>queue = [(1000, \<lparr>type = ''text'', payload = ''Hello''\<rparr>)],
                      state = Readable, closes = 0\<rparr>\<rparr>)) = 1 \<and>
   closes (controller (end_of_stream \<lparr>lastChunkTime = 1000,
        controller = \<lparr>queue = [(1000, \<lparr>type = ''text'', payload = ''Hello''\<rparr>)],
                      state = Readable, closes = 0\<rparr>\<rparr>)) = 1"
proof -
  have r: "run [(\<lparr>now = 1000, late = 0, lag = 0, cancel = None\<rparr>,
                 \<lparr>type = ''text'', payload = ''Hello''\<rparr>)] start =
           Inr \<lparr>lastChunkTime = 1000,
                controller = \<lparr>queue = [(1000, \<lparr>type = ''text'', payload = ''Hello''\<rparr>)],
                              state = Readable, closes = 0\<rparr>\<rparr>"
    by (simp add: start_def transform_def enqueue_def enqueue_time_def delay_def
        timeSinceLastChunk_def MIN_DELAY_MS_def)
  from flush_signals_completion_once[OF r] r show ?thesis by simp
qed

text \<open>
  C4. The timer is not tied to cancellation. When the consumer cancels while a call is
  waiting, the wait runs its full length (the enqueue is due at the same time as without
  the cancellation); the callback then calls \<open>enqueue\<close> on the closed readable side, which
  throws a \<open>TypeError\<close> out of the callback. Nothing is added to the queue at or after the
  cancellation, and the run ends there: no later chunk is processed.
\<close>

theorem cancel_during_delay:
  assumes "cancel k = Some tc" "tc \<le> enqueue_time k chunk (lastChunkTime s)"
  shows "enqueue_time k chunk (lastChunkTime s) =
           enqueue_time (k\<lparr>cancel := None\<rparr>) chunk (lastChunkTime s) \<and>
         transform k chunk s = Inl (TypeError, s\<lparr>controller := cancelled (controller s)\<rparr>) \<and>
         queue (cancelled (controller s)) = queue (controller s) \<and>
         run ((k, chunk) # rest) s = Inl (TypeError, s\<lparr>controller := cancelled (controller s)\<rparr>)"
proof -
  have t: "transform k chunk s = Inl (TypeError, s\<lparr>controller := cancelled (controller s)\<rparr>)"
    using assms by (simp add: transform_def enqueue_def cancelled_def)
  show ?thesis using t by (simp add: enqueue_time_def cancelled_def split: option.splits)
qed

theorem cancel_during_delay_witness:
  "cancel \<lparr>now = 1005, late = 0, lag = 0, cancel = Some 1006\<rparr> = Some 1006 \<and>
   1006 \<le> enqueue_time \<lparr>now = 1005, late = 0, lag = 0, cancel = Some 1006\<rparr>
     \<lparr>type = ''text'', payload = '' world''\<rparr> 1000 \<and>
   enqueue_time \<lparr>now = 1005, late = 0, lag = 0, cancel = Some 1006\<rparr>
     \<lparr>type = ''text'', payload = '' world''\<rparr> 1000 =
   enqueue_time \<lparr>now = 1005, late = 0, lag = 0, cancel = None\<rparr>
     \<lparr>type = ''text'', payload = '' world''\<rparr> 1000 \<and>
   run [(\<lparr>now = 1005, late = 0, lag = 0, cancel = Some 1006\<rparr>,
         \<lparr>type = ''text'', payload = '' world''\<rparr>),
        (\<lparr>now = 1030, late = 0, lag = 0, cancel = None\<rparr>, \<lparr>type = ''text'', payload = ''!''\<rparr>)]
     \<lparr>lastChunkTime = 1000,
      controller = \<lparr>queue = [(1000, \<lparr>type = ''text'', payload = ''Hello''\<rparr>)],
                    state = Readable, closes = 0\<rparr>\<rparr> =
   Inl (TypeError,
        \<lparr>lastChunkTime = 1000,
         controller = \<lparr>queue = [(1000, \<lparr>type = ''text'', payload = ''Hello''\<rparr>)],
                       state = Closed, closes = 0\<rparr>\<rparr>)"
proof -
  have c: "cancel \<lparr>now = 1005, late = 0, lag = 0, cancel = Some 1006\<rparr> = Some 1006"
    by simp
  have t: "1006 \<le> enqueue_time \<lparr>now = 1005, late = 0, lag = 0, cancel = Some 1006\<rparr>
     \<lparr>type = ''text'', payload = '' world''\<rparr>
     (lastChunkTime \<lparr>lastChunkTime = 1000,
      controller = \<lparr>queue = [(1000, \<lparr>type = ''text'', payload = ''Hello''\<rparr>)],
                    state = Readable, closes = 0\<rparr>\<rparr>)"
    by (simp add: enqueue_time_def delay_def timeSinceLastChunk_def MIN_DELAY_MS_def)
  from cancel_during_delay[OF c t,
      of "[(\<lparr>now = 1030, late = 0, lag = 0, cancel = None\<rparr>, \<lparr>type = ''text'', payload = ''!''\<rparr>)]"]
    t
  show ?thesis by (simp add: cancelled_def)
qed

text \<open>
  The claim as it is written fails: a consumer cancels at 1006 while a text chunk that
  arrived at 1005 waits for its 15 ms; the enqueue is still made at 1020, on the closed
  readable side, and throws.
\<close>

theorem cancel_during_delay_counterexample:
  "cancel \<lparr>now = 1005, late = 0, lag = 0, cancel = Some 1006\<rparr> = Some 1006 \<and>
   delay 1000 \<lparr>type = ''text'', payload = '' world''\<rparr> 1005 = Some 15 \<and>
   enqueue_time \<lparr>now = 1005, late = 0, lag = 0, cancel = Some 1006\<rparr>
     \<lparr>type = ''text'', payload = '' world''\<rparr> 1000 = 1020 \<and>
   transform \<lparr>now = 1005, late = 0, lag = 0, cancel = Some 1006\<rparr>
     \<lparr>type = ''text'', payload = '' world''\<rparr>
     \<lparr>lastChunkTime = 1000,
      controller = \<lparr>queue = [(1000, \<lparr>type = ''text'', payload = ''Hello''\<rparr>)],
                    state = Readable, closes = 0\<rparr>\<rparr> =
   Inl (TypeError,
        \<lparr>lastChunkTime = 1000,
         controller = \<lparr>queue = [(1000, \<lparr>type = ''text'', payload = ''Hello''\<rparr>)],
                       state = Closed, closes = 0\<rparr>\<rparr>)"
  by (simp add: delay_def timeSinceLastChunk_def MIN_DELAY_MS_def enqueue_time_def transform_def
      enqueue_def cancelled_def)

section \<open>Properties of the provider-configuration endpoint\<close>

lemma authenticated_uid:
  "authenticated req \<longleftrightarrow>
     (\<exists>session uid. auth req = Inr session \<and> session_user_id session = Some uid \<and> uid \<noteq> [])"
  by (auto simp: authenticated_def split: sum.splits option.splits)

lemma destructure_acceptable:
  "acceptable b \<longleftrightarrow>
     (\<exists>provider apiKey. destructure b = Inr (provider, apiKey) \<and> truthy provider \<and> truthy apiKey \<and>
        (provider = JStr ''openrouter'' \<or> provider = JStr ''deepinfra''))"
  by (cases b) auto

lemma destructure_throws: "(\<exists>e. destructure b = Inl e) \<longleftrightarrow> b = JNull \<or> b = JUndefined"
  by (cases b) auto

lemma POST_unauthenticated:
  assumes "auth req = Inr session" "\<not> authenticated req"
  shows "POST save req db = (\<lparr>status = 401, body = ErrorBody ''Unauthorized''\<rparr>, db)"
  using assms by (auto simp: POST_def authenticated_def split: option.splits)

lemma POST_rejected:
  assumes "authenticated req" "json req = Inr b" "b \<noteq> JNull" "b \<noteq> JUndefined" "\<not> acceptable b"
  shows "status (fst (POST save req db)) = 400 \<and> snd (POST save req db) = db"
proof -
  from assms(1) obtain session uid
    where a: "auth req = Inr session" "session_user_id session = Some uid" "uid \<noteq> []"
    by (auto simp: authenticated_uid)
  from assms(3,4) destructure_throws[of b] obtain provider apiKey
    where d: "destructure b = Inr (provider, apiKey)"
    by (cases "destructure b") auto
  with assms(5) destructure_acceptable[of b]
  have "\<not> truthy provider \<or> \<not> truthy apiKey \<or>
        (provider \<noteq> JStr ''openrouter'' \<and> provider \<noteq> JStr ''deepinfra'')"
    by auto
  with a d assms(2) show ?thesis
    by (auto simp: POST_def)
qed

lemma POST_throws:
  assumes "authenticated req" "json req = Inl e \<or> json req = Inr JNull"
  shows "POST save req db = (failed, db)"
proof -
  from assms(1) obtain session uid
    where a: "auth req = Inr session" "session_user_id session = Some uid" "uid \<noteq> []"
    by (auto simp: authenticated_uid)
  with assms(2) show ?thesis
    by (auto simp: POST_def)
qed

lemma POST_accepted:
  assumes "auth req = Inr session" "session_user_id session = Some uid" "uid \<noteq> []"
    "json req = Inr (JObj kvs)" "acceptable (JObj kvs)"
  shows "POST save req db =
           (case save db uid (property kvs ''provider'') (property kvs ''apiKey'') of
              Inl e \<Rightarrow> (failed, db)
            | Inr db' \<Rightarrow>
                (\<lparr>status = 200, body = SuccessBody ''Provider configuration saved successfully''\<rparr>,
                 db'))"
  using assms by (auto simp: POST_def)

lemma POST_saved_only:
  assumes "snd (POST save req db) \<noteq> db"
  shows "authenticated req \<and> (\<exists>b. json req = Inr b \<and> acceptable b)"
proof -
  from assms obtain session where s: "auth req = Inr session"
    by (cases "auth req") (auto simp: POST_def)
  from assms s obtain uid where u: "session_user_id session = Some uid" "uid \<noteq> []"
    by (cases "session_user_id session") (auto simp: POST_def split: if_splits)
  from assms s u obtain b where b: "json req = Inr b"
    by (cases "json req") (auto simp: POST_def)
  from assms s u b obtain provider apiKey where d: "destructure b = Inr (provider, apiKey)"
    by (cases "destructure b") (auto simp: POST_def)
  from assms s u b d have "truthy provider \<and> truthy apiKey \<and>
        (provider = JStr ''openrouter'' \<or> provider = JStr ''deepinfra'')"
    by (auto simp: POST_def split: if_splits)
  with d have "acceptable b" by (auto simp: destructure_acceptable)
  with s u b show ?thesis by (auto simp: authenticated_uid)
qed

text \<open>
  C10. An unauthenticated request is answered 401 and the store is left as it was. For an
  authenticated request: an acceptable body is handed to the storage call, and the answer
  is 200 with the store it returns; any other body that parses to a value other than \<open>null\<close>
  is answered 400 and the store is left as it was; a body that is not JSON, or is \<open>null\<close>,
  ends in the \<open>catch\<close> block: 500, and the store is left as it was. The store changes
  only for an authenticated request with an acceptable body.
\<close>

theorem POST_saves_only_acceptable:
  "(auth req = Inr session \<and> \<not> authenticated req \<longrightarrow>
      POST save req db = (\<lparr>status = 401, body = ErrorBody ''Unauthorized''\<rparr>, db)) \<and>
   (auth req = Inr session \<and> session_user_id session = Some uid \<and> uid \<noteq> [] \<and>
    json req = Inr (JObj kvs) \<and> acceptable (JObj kvs) \<longrightarrow>
      POST save req db =
        (case save db uid (property kvs ''provider'') (property kvs ''apiKey'') of
           Inl e \<Rightarrow> (failed, db)
         | Inr db' \<Rightarrow>
             (\<lparr>status = 200, body = SuccessBody ''Provider configuration saved successfully''\<rparr>,
              db'))) \<and>
   (authenticated req \<and> json req = Inr b \<and> b \<noteq> JNull \<and> b \<noteq> JUndefined \<and> \<not> acceptable b \<longrightarrow>
      status (fst (POST save req db)) = 400 \<and> snd (POST save req db) = db) \<and>
   (authenticated req \<and> (json req = Inl err \<or> json req = Inr JNull) \<longrightarrow>
      POST save req db = (failed, db)) \<and>
   (snd (POST save req db) \<noteq> db \<longrightarrow>
      authenticated req \<and> (\<exists>b'. json req = Inr b' \<and> acceptable b'))"
  using POST_unauthenticated[of req session save db]
    POST_accepted[of req session uid kvs save db]
    POST_rejected[of req b save db]
    POST_throws[of req err save db]
    POST_saved_only[of save req db]
  by blast

theorem POST_saves_only_acceptable_witness:
  "\<not> authenticated \<lparr>auth = Inr None, json = Inr (JObj [(''provider'', JStr ''openrouter''), (''apiKey'', JStr ''sk-1'')])\<rparr> \<and>
   POST saveProviderConfig \<lparr>auth = Inr None, json = Inr (JObj [(''provider'', JStr ''openrouter''), (''apiKey'', JStr ''sk-1'')])\<rparr> no_configs =
     (\<lparr>status = 401, body = ErrorBody ''Unauthorized''\<rparr>, no_configs) \<and>
   authenticated \<lparr>auth = Inr (Some \<lparr>user = Some \<lparr>user_id = Some ''u1''\<rparr>\<rparr>), json = Inr (JObj [(''provider'', JStr ''openrouter''), (''apiKey'', JStr ''sk-1'')])\<rparr> \<and>
   acceptable (JObj [(''provider'', JStr ''openrouter''), (''apiKey'', JStr ''sk-1'')]) \<and>
   POST saveProviderConfig \<lparr>auth = Inr (Some \<lparr>user = Some \<lparr>user_id = Some ''u1''\<rparr>\<rparr>), json = Inr (JObj [(''provider'', JStr ''openrouter''), (''apiKey'', JStr ''sk-1'')])\<rparr> no_configs =
     (\<lparr>status = 200, body = SuccessBody ''Provider configuration saved successfully''\<rparr>,
      no_configs((''u1'', JStr ''openrouter'') \<mapsto> JStr ''sk-1'')) \<and>
   snd (POST saveProviderConfig \<lparr>auth = Inr (Some \<lparr>user = Some \<lparr>user_id = Some ''u1''\<rparr>\<rparr>), json = Inr (JObj [(''provider'', JStr ''openrouter''), (''apiKey'', JStr ''sk-1'')])\<rparr> no_configs) \<noteq> no_configs \<and>
   \<not> acceptable (JObj [(''provider'', JStr ''openai''), (''apiKey'', JStr ''sk-1'')]) \<and>
   status (fst (POST saveProviderConfig \<lparr>auth = Inr (Some \<lparr>user = Some \<lparr>user_id = Some ''u1''\<rparr>\<rparr>), json = Inr (JObj [(''provider'', JStr ''openai''), (''apiKey'', JStr ''sk-1'')])\<rparr> no_configs)) = 400 \<and>
   snd (POST saveProviderConfig \<lparr>auth = Inr (Some \<lparr>user = Some \<lparr>user_id = Some ''u1''\<rparr>\<rparr>), json = Inr (JObj [(''provider'', JStr ''openai''), (''apiKey'', JStr ''sk-1'')])\<rparr> no_configs) = no_configs \<and>
   POST saveProviderConfig \<lparr>auth = Inr (Some \<lparr>user = Some \<lparr>user_id = Some ''u1''\<rparr>\<rparr>), json = Inr JNull\<rparr> no_configs = (failed, no_configs)"
proof -
  let ?session = "Some \<lparr>user = Some \<lparr>user_id = Some ''u1''\<rparr>\<rparr>"
  let ?kvs = "[(''provider'', JStr ''openrouter''), (''apiKey'', JStr ''sk-1'')]"
  let ?good = "\<lparr>auth = Inr (Some \<lparr>user = Some \<lparr>user_id = Some ''u1''\<rparr>\<rparr>), json = Inr (JObj [(''provider'', JStr ''openrouter''), (''apiKey'', JStr ''sk-1'')])\<rparr>"
  let ?anon = "\<lparr>auth = Inr None, json = Inr (JObj [(''provider'', JStr ''openrouter''), (''apiKey'', JStr ''sk-1'')])\<rparr>"
  let ?bad = "\<lparr>auth = Inr (Some \<lparr>user = Some \<lparr>user_id = Some ''u1''\<rparr>\<rparr>), json = Inr (JObj [(''provider'', JStr ''openai''), (''apiKey'', JStr ''sk-1'')])\<rparr>"
  let ?null = "\<lparr>auth = Inr (Some \<lparr>user = Some \<lparr>user_id = Some ''u1''\<rparr>\<rparr>), json = Inr JNull\<rparr>"
  have anon: "auth ?anon = Inr None \<and> \<not> authenticated ?anon"
    by (simp add: authenticated_def session_user_id_def)
  have good: "auth ?good = Inr ?session \<and> session_user_id ?session = Some ''u1'' \<and> ''u1'' \<noteq> [] \<and>
              json ?good = Inr (JObj ?kvs) \<and> acceptable (JObj ?kvs)"
    by (simp add: session_user_id_def property_def)
  have auth_good: "authenticated ?good" "authenticated ?bad" "authenticated ?null"
    by (simp_all add: authenticated_def session_user_id_def)
  have bad: "json ?bad = Inr (JObj [(''provider'', JStr ''openai''), (''apiKey'', JStr ''sk-1'')]) \<and> JObj [(''provider'', JStr ''openai''), (''apiKey'', JStr ''sk-1'')] \<noteq> JNull \<and> JObj [(''provider'', JStr ''openai''), (''apiKey'', JStr ''sk-1'')] \<noteq> JUndefined \<and>
             \<not> acceptable (JObj [(''provider'', JStr ''openai''), (''apiKey'', JStr ''sk-1'')])"
    by (simp add: property_def)
  have null: "json ?null = Inr JNull"
    by simp
  have r401: "POST saveProviderConfig ?anon no_configs =
     (\<lparr>status = 401, body = ErrorBody ''Unauthorized''\<rparr>, no_configs)"
    using POST_saves_only_acceptable[where req = ?anon and session = None
        and save = saveProviderConfig and db = no_configs] anon
    by blast
  have r200: "POST saveProviderConfig ?good no_configs =
     (\<lparr>status = 200, body = SuccessBody ''Provider configuration saved successfully''\<rparr>,
      no_configs((''u1'', JStr ''openrouter'') \<mapsto> JStr ''sk-1''))"
    using POST_saves_only_acceptable[where req = ?good and session = ?session and uid = "''u1''"
        and kvs = ?kvs and save = saveProviderConfig and db = no_configs] good
    by (simp add: saveProviderConfig_def property_def)
  have changed: "snd (POST saveProviderConfig ?good no_configs) \<noteq> no_configs"
    unfolding r200 by (simp add: no_configs_def)
  have r400: "status (fst (POST saveProviderConfig ?bad no_configs)) = 400 \<and>
              snd (POST saveProviderConfig ?bad no_configs) = no_configs"
    using POST_saves_only_acceptable[where req = ?bad and b = "JObj [(''provider'', JStr ''openai''), (''apiKey'', JStr ''sk-1'')]"
        and save = saveProviderConfig and db = no_configs] bad auth_good(2)
    by blast
  have r500: "POST saveProviderConfig ?null no_configs = (failed, no_configs)"
    using POST_saves_only_acceptable[where req = ?null
        and save = saveProviderConfig and db = no_configs] null auth_good(3)
    by blast
  have only: "authenticated ?good"
    using POST_saves_only_acceptable[where req = ?good
        and save = saveProviderConfig and db = no_configs] changed
    by blast
  from anon r401 only good r200 changed bad r400 r500 show ?thesis
    by blast
qed

text \<open>
  The claim as it is written fails: an authenticated request whose body is \<open>null\<close>, or is
  not JSON at all, is answered 500, not 400.
\<close>

theorem POST_other_body_counterexample:
  "authenticated \<lparr>auth = Inr (Some \<lparr>user = Some \<lparr>user_id = Some ''u1''\<rparr>\<rparr>), json = Inr JNull\<rparr> \<and>
   \<not> acceptable JNull \<and>
   status (fst (POST saveProviderConfig \<lparr>auth = Inr (Some \<lparr>user = Some \<lparr>user_id = Some ''u1''\<rparr>\<rparr>), json = Inr JNull\<rparr> no_configs)) = 500 \<and>
   authenticated \<lparr>auth = Inr (Some \<lparr>user = Some \<lparr>user_id = Some ''u1''\<rparr>\<rparr>), json = Inl SyntaxError\<rparr> \<and>
   status (fst (POST saveProviderConfig \<lparr>auth = Inr (Some \<lparr>user = Some \<lparr>user_id = Some ''u1''\<rparr>\<rparr>), json = Inl SyntaxError\<rparr> no_configs)) = 500"
  by (simp add: authenticated_def session_user_id_def POST_def failed_def)

section \<open>Properties of the stream relay\<close>

lemma relay_run_Nil: "relay_run m [] r = r"
  by (simp add: relay_run_def)

lemma relay_run_Cons: "relay_run m (u # ups) r = relay_run m ups (relay_step m r u)"
  by (simp add: relay_run_def)

lemma relay_run_append: "relay_run m (ups @ ups') r = relay_run m ups' (relay_run m ups r)"
  by (simp add: relay_run_def)

text \<open>The two terminal states take no further event.\<close>

lemma relay_step_terminal:
  "phase r = ENDED \<or> phase r = ERRORED \<Longrightarrow> relay_step m r u = r"
  by (cases u) auto

lemma relay_run_terminal:
  "phase r = ENDED \<or> phase r = ERRORED \<Longrightarrow> relay_run m ups r = r"
  by (induction ups) (simp_all add: relay_run_Nil relay_run_Cons relay_step_terminal)

text \<open>Chunks forwarded while streaming add one content event each and change nothing else.\<close>

lemma relay_run_chunks_streaming:
  "phase r = STREAMING \<Longrightarrow>
     relay_run m (map Chunk texts) r = r\<lparr>events := events r @ map (content_event m) texts\<rparr>"
proof (induction texts arbitrary: r)
  case Nil
  then show ?case by (simp add: relay_run_Nil)
next
  case (Cons t texts)
  let ?r = "r\<lparr>events := events r @ [content_event m t]\<rparr>"
  from Cons.prems have step: "relay_step m r (Chunk t) = ?r" by simp
  from Cons.prems have "phase ?r = STREAMING" by simp
  from Cons.IH[OF this] step show ?case
    by (simp add: relay_run_Cons)
qed

lemma relay_run_chunks_start:
  assumes "texts \<noteq> []"
  shows "relay_run m (map Chunk texts) relay_start =
           \<lparr>phase = STREAMING, http_status = Some 200, error_body = None,
            events = map (content_event m) texts, connection_open = True\<rparr>"
proof -
  from assms obtain t ts where texts: "texts = t # ts" by (cases texts) auto
  let ?r = "\<lparr>phase = STREAMING, http_status = Some 200, error_body = None,
             events = [content_event m t], connection_open = True\<rparr>"
  have "relay_step m relay_start (Chunk t) = ?r"
    by (simp add: relay_start_def)
  moreover have "relay_run m (map Chunk ts) ?r = ?r\<lparr>events := events ?r @ map (content_event m) ts\<rparr>"
    by (rule relay_run_chunks_streaming) simp
  ultimately show ?thesis
    by (simp add: texts relay_run_Cons)
qed

text \<open>
  C3. After at least one chunk has been forwarded the status is the committed 200. An
  upstream failure then adds exactly one event to those already written, the error event:
  it has \<open>finish_reason\<close> \<open>error\<close> and the error's code and message at the top level,
  beside the session's id, object, created, model and provider. The connection is closed,
  the status is still 200, and whatever upstream events follow change nothing.
\<close>

theorem relay_failure_after_chunks:
  assumes "texts \<noteq> []"
  shows "http_status (relay_run m (map Chunk texts) relay_start) = Some 200 \<and>
         relay_run m (map Chunk texts @ Failure e # rest) relay_start =
           \<lparr>phase = ERRORED, http_status = Some 200, error_body = None,
            events = events (relay_run m (map Chunk texts) relay_start) @ [error_event m e],
            connection_open = False\<rparr> \<and>
         finish_reason (error_event m e) = Some ''error'' \<and>
         ev_error (error_event m e) = Some (code e, message e) \<and>
         ev_id (error_event m e) = env_id m \<and>
         ev_object (error_event m e) = ''chat.completion.chunk'' \<and>
         ev_created (error_event m e) = env_created m \<and>
         ev_model (error_event m e) = env_model m \<and>
         ev_provider (error_event m e) = env_provider m \<and>
         ev_content (error_event m e) = []"
proof -
  let ?r = "relay_run m (map Chunk texts) relay_start"
  note chunks = relay_run_chunks_start[OF assms, of m]
  have step: "relay_step m ?r (Failure e) =
           \<lparr>phase = ERRORED, http_status = Some 200, error_body = None,
            events = events ?r @ [error_event m e], connection_open = False\<rparr>"
    by (simp add: chunks)
  have "relay_run m (map Chunk texts @ Failure e # rest) relay_start =
          relay_run m rest (relay_step m ?r (Failure e))"
    by (simp add: relay_run_append relay_run_Cons)
  also have "\<dots> = relay_step m ?r (Failure e)"
    by (rule relay_run_terminal) (simp only: step, simp)
  finally have run: "relay_run m (map Chunk texts @ Failure e # rest) relay_start =
           \<lparr>phase = ERRORED, http_status = Some 200, error_body = None,
            events = events ?r @ [error_event m e], connection_open = False\<rparr>"
    by (simp only: step)
  have st: "http_status ?r = Some 200"
    by (simp add: chunks)
  have ev: "finish_reason (error_event m e) = Some ''error'' \<and>
         ev_error (error_event m e) = Some (code e, message e) \<and>
         ev_id (error_event m e) = env_id m \<and>
         ev_object (error_event m e) = ''chat.completion.chunk'' \<and>
         ev_created (error_event m e) = env_created m \<and>
         ev_model (error_event m e) = env_model m \<and>
         ev_provider (error_event m e) = env_provider m \<and>
         ev_content (error_event m e) = []"
    by (simp add: error_event_def event_def)
  from st run ev show ?thesis by blast
qed

theorem relay_failure_after_chunks_witness:
  "[''Hello'', '' world''] \<noteq> [] \<and>
   relay_run \<lparr>env_id = ''cmpl-1'', env_created = 1, env_model = ''m'', env_provider = ''p''\<rparr>
     (map Chunk [''Hello'', '' world''] @
      Failure \<lparr>cause = RateLimited, code = ''rate_limited'', message = ''slow down''\<rparr> #
      [Chunk ''late''])
     relay_start =
   \<lparr>phase = ERRORED, http_status = Some 200, error_body = None,
    events =
      events (relay_run \<lparr>env_id = ''cmpl-1'', env_created = 1, env_model = ''m'', env_provider = ''p''\<rparr>
                (map Chunk [''Hello'', '' world'']) relay_start) @
      [error_event \<lparr>env_id = ''cmpl-1'', env_created = 1, env_model = ''m'', env_provider = ''p''\<rparr>
         \<lparr>cause = RateLimited, code = ''rate_limited'', message = ''slow down''\<rparr>],
    connection_open = False\<rparr> \<and>
   ev_error (error_event \<lparr>env_id = ''cmpl-1'', env_created = 1, env_model = ''m'', env_provider = ''p''\<rparr>
         \<lparr>cause = RateLimited, code = ''rate_limited'', message = ''slow down''\<rparr>) =
     Some (''rate_limited'', ''slow down'')"
proof -
  have ne: "[''Hello'', '' world''] \<noteq> []" by simp
  from relay_failure_after_chunks[OF ne,
      of "\<lparr>env_id = ''cmpl-1'', env_created = 1, env_model = ''m'', env_provider = ''p''\<rparr>"
         "\<lparr>cause = RateLimited, code = ''rate_limited'', message = ''slow down''\<rparr>"
         "[Chunk ''late'']"]
  show ?thesis by simp
qed

text \<open>
  C7. An upstream failure before any chunk has been forwarded is answered with the status
  of its cause (400 invalid input, 401 or 402 authentication or credit failure, 429 rate
  limiting, 502 or 503 upstream unavailability), never 200, and with one JSON error body
  of the failure's code and message; no event is written, the connection is closed, and
  whatever upstream events follow change nothing.
\<close>

theorem relay_failure_before_chunks:
  "relay_run m (Failure e # rest) relay_start =
     \<lparr>phase = ERRORED, http_status = Some (status_of (cause e)),
      error_body = Some (code e, message e), events = [], connection_open = False\<rparr> \<and>
   status_of (cause e) \<noteq> 200 \<and>
   status_of (cause e) \<in> {400, 401, 402, 429, 502, 503} \<and>
   status_of InvalidInput = 400 \<and>
   status_of AuthFailure = 401 \<and>
   status_of CreditFailure = 402 \<and>
   status_of RateLimited = 429 \<and>
   status_of ProviderError = 502 \<and>
   status_of NoProvider = 503"
proof -
  have step: "relay_step m relay_start (Failure e) =
     \<lparr>phase = ERRORED, http_status = Some (status_of (cause e)),
      error_body = Some (code e, message e), events = [], connection_open = False\<rparr>"
    by (simp add: relay_start_def)
  have "relay_run m (Failure e # rest) relay_start = relay_step m relay_start (Failure e)"
    unfolding relay_run_Cons by (rule relay_run_terminal) (simp only: step, simp)
  with step have run: "relay_run m (Failure e # rest) relay_start =
     \<lparr>phase = ERRORED, http_status = Some (status_of (cause e)),
      error_body = Some (code e, message e), events = [], connection_open = False\<rparr>"
    by simp
  have "status_of (cause e) \<noteq> 200 \<and> status_of (cause e) \<in> {400, 401, 402, 429, 502, 503}"
    by (cases "cause e") simp_all
  with run show ?thesis by simp
qed

end
